theory Spec2Isabelle
  imports Complex_Main
begin

section \<open>JavaScript numbers\<close>

text \<open>
  The component computes with JavaScript numbers. A number is modelled as a real or one
  of the three special values, so that division by zero and its propagation through
  \<open>Math.min\<close>, \<open>Math.max\<close> and the arithmetic operators are what the
  program does. The operators of this section return the exact result, with \<open>0.1\<close>
  one tenth; the engine rounds each result to binary64, which is added in the section on
  rounding and used where a property depends on the last bits. The sign of zero is left
  out (a zero divisor is \<open>+0\<close>, which is what the initial \<open>useState(0)\<close>,
  \<open>video.duration\<close> and the width of a bounding box give).
\<close>

datatype jsnum = Finite real | PosInfinity | NegInfinity | NaN

fun js_neg :: "jsnum \<Rightarrow> jsnum" where
  "js_neg (Finite a) = Finite (- a)"
| "js_neg PosInfinity = NegInfinity"
| "js_neg NegInfinity = PosInfinity"
| "js_neg NaN = NaN"

fun js_add :: "jsnum \<Rightarrow> jsnum \<Rightarrow> jsnum" where
  "js_add (Finite a) (Finite b) = Finite (a + b)"
| "js_add (Finite a) PosInfinity = PosInfinity"
| "js_add (Finite a) NegInfinity = NegInfinity"
| "js_add PosInfinity (Finite b) = PosInfinity"
| "js_add PosInfinity PosInfinity = PosInfinity"
| "js_add PosInfinity NegInfinity = NaN"
| "js_add NegInfinity (Finite b) = NegInfinity"
| "js_add NegInfinity PosInfinity = NaN"
| "js_add NegInfinity NegInfinity = NegInfinity"
| "js_add NaN b = NaN"
| "js_add a NaN = NaN"

definition js_sub :: "jsnum \<Rightarrow> jsnum \<Rightarrow> jsnum" where
  "js_sub a b = js_add a (js_neg b)"

text \<open>The sign of an infinite product or quotient: \<open>True\<close> is positive.\<close>

definition js_signed_inf :: "bool \<Rightarrow> jsnum" where
  "js_signed_inf positive = (if positive then PosInfinity else NegInfinity)"

fun js_mul :: "jsnum \<Rightarrow> jsnum \<Rightarrow> jsnum" where
  "js_mul (Finite a) (Finite b) = Finite (a * b)"
| "js_mul (Finite a) PosInfinity = (if a = 0 then NaN else js_signed_inf (0 < a))"
| "js_mul (Finite a) NegInfinity = (if a = 0 then NaN else js_signed_inf (a < 0))"
| "js_mul PosInfinity (Finite b) = (if b = 0 then NaN else js_signed_inf (0 < b))"
| "js_mul NegInfinity (Finite b) = (if b = 0 then NaN else js_signed_inf (b < 0))"
| "js_mul PosInfinity PosInfinity = PosInfinity"
| "js_mul PosInfinity NegInfinity = NegInfinity"
| "js_mul NegInfinity PosInfinity = NegInfinity"
| "js_mul NegInfinity NegInfinity = PosInfinity"
| "js_mul NaN b = NaN"
| "js_mul a NaN = NaN"

fun js_div :: "jsnum \<Rightarrow> jsnum \<Rightarrow> jsnum" where
  "js_div (Finite a) (Finite b) =
     (if b \<noteq> 0 then Finite (a / b)
      else if a = 0 then NaN
      else js_signed_inf (0 < a))"
| "js_div (Finite a) PosInfinity = Finite 0"
| "js_div (Finite a) NegInfinity = Finite 0"
| "js_div PosInfinity (Finite b) = js_signed_inf (0 \<le> b)"
| "js_div NegInfinity (Finite b) = js_signed_inf (b < 0)"
| "js_div PosInfinity PosInfinity = NaN"
| "js_div PosInfinity NegInfinity = NaN"
| "js_div NegInfinity PosInfinity = NaN"
| "js_div NegInfinity NegInfinity = NaN"
| "js_div NaN b = NaN"
| "js_div a NaN = NaN"

text \<open>\<open>Math.min\<close> and \<open>Math.max\<close> of two arguments: \<open>NaN\<close> if either is.\<close>

fun Math_min :: "jsnum \<Rightarrow> jsnum \<Rightarrow> jsnum" where
  "Math_min (Finite a) (Finite b) = Finite (min a b)"
| "Math_min (Finite a) PosInfinity = Finite a"
| "Math_min (Finite a) NegInfinity = NegInfinity"
| "Math_min PosInfinity (Finite b) = Finite b"
| "Math_min PosInfinity PosInfinity = PosInfinity"
| "Math_min PosInfinity NegInfinity = NegInfinity"
| "Math_min NegInfinity (Finite b) = NegInfinity"
| "Math_min NegInfinity PosInfinity = NegInfinity"
| "Math_min NegInfinity NegInfinity = NegInfinity"
| "Math_min NaN b = NaN"
| "Math_min a NaN = NaN"

fun Math_max :: "jsnum \<Rightarrow> jsnum \<Rightarrow> jsnum" where
  "Math_max (Finite a) (Finite b) = Finite (max a b)"
| "Math_max (Finite a) PosInfinity = PosInfinity"
| "Math_max (Finite a) NegInfinity = Finite a"
| "Math_max PosInfinity (Finite b) = PosInfinity"
| "Math_max PosInfinity PosInfinity = PosInfinity"
| "Math_max PosInfinity NegInfinity = PosInfinity"
| "Math_max NegInfinity (Finite b) = Finite b"
| "Math_max NegInfinity PosInfinity = PosInfinity"
| "Math_max NegInfinity NegInfinity = NegInfinity"
| "Math_max NaN b = NaN"
| "Math_max a NaN = NaN"

fun is_finite :: "jsnum \<Rightarrow> bool" where
  "is_finite (Finite a) = True"
| "is_finite PosInfinity = False"
| "is_finite NegInfinity = False"
| "is_finite NaN = False"


section \<open>The timeline component\<close>

text \<open>
  \<open>VideoFile\<close> as the editor declares it. \<open>data\<close> is absent (\<open>None\<close>) in a
  file object built by the upload component that does not read the bytes.
\<close>

type_synonym bytes = "nat list"

record VideoFile =
  url :: string
  filename :: string
  file_size :: nat
  mime_type :: string
  data :: "bytes option"

text \<open>The part of \<open>getBoundingClientRect()\<close> the handlers read.\<close>

record DOMRect =
  rect_left :: jsnum
  rect_width :: jsnum

text \<open>
  What a \<open>throw\<close> or a rejected promise carries: an \<open>Error\<close> instance with its
  message, or anything else (kept here in its string form).
\<close>

datatype js_thrown = Error_instance string | Other_value string

record Blob =
  blob_parts :: bytes
  blob_type :: string

text \<open>
  What the component does to the outside, in the order it does it: notifications, calls
  of the codec engine, the seek of the preview element, the object URL and the click on
  the transient download link. \<open>Uncaught\<close> is an exception leaving an event handler.
\<close>

datatype event =
    Toast string string bool
  | WriteFile string bytes
  | Exec "string list"
  | ReadFile string
  | DeleteFile string
  | CreateObjectURL Blob
  | SetVideoCurrentTime jsnum
  | AnchorClick string string
  | Uncaught js_thrown

text \<open>
  The state of one mounted \<open>VideoTimeline\<close>: its \<open>useState\<close> cells, whether its
  refs are set (\<open>timelineRef\<close> with the element's current bounding box), the
  \<open>isProcessing\<close> property that \<open>setIsProcessing\<close> writes in the parent, and the
  effects so far.
\<close>

record timeline =
  duration :: jsnum
  currentTime :: jsnum
  isPlaying :: bool
  startTime :: jsnum
  endTime :: jsnum
  isDraggingStart :: bool
  isDraggingEnd :: bool
  trimmedVideoUrl :: "string option"
  ffmpegLoaded :: bool
  processingProgress :: int
  isProcessing :: bool
  ffmpegRef :: bool
  videoRef :: bool
  timelineRef :: "DOMRect option"
  events :: "event list"

definition emit :: "event \<Rightarrow> timeline \<Rightarrow> timeline" where
  "emit e st = st\<lparr>events := events st @ [e]\<rparr>"

text \<open>
  \<open>toast({title, description, variant})\<close>; the flag says \<open>variant: "destructive"\<close>.
\<close>

definition toast :: "string \<Rightarrow> string \<Rightarrow> bool \<Rightarrow> timeline \<Rightarrow> timeline" where
  "toast title description destructive st = emit (Toast title description destructive) st"

text \<open>The \<open>useState\<close> defaults; the refs are set once the component is mounted.\<close>

definition initial_timeline :: "DOMRect \<Rightarrow> timeline" where
  "initial_timeline r =
     \<lparr>duration = Finite 0, currentTime = Finite 0, isPlaying = False,
      startTime = Finite 0, endTime = Finite 0,
      isDraggingStart = False, isDraggingEnd = False,
      trimmedVideoUrl = None, ffmpegLoaded = False, processingProgress = 0,
      isProcessing = False, ffmpegRef = False, videoRef = True,
      timelineRef = Some r, events = []\<rparr>"

definition handleLoadedMetadata :: "jsnum \<Rightarrow> timeline \<Rightarrow> timeline" where
  "handleLoadedMetadata videoDuration st =
     st\<lparr>duration := videoDuration, endTime := videoDuration\<rparr>"

subsection \<open>Pointer events\<close>

text \<open>
  A mouse event carries \<open>clientX\<close>; a touch event carries the list of active touches,
  and the handlers read \<open>e.touches[0].clientX\<close>, a \<open>TypeError\<close> when the list is
  empty.
\<close>

datatype pointer_event = MouseEv jsnum | TouchEv "jsnum list"

fun pointer_clientX :: "pointer_event \<Rightarrow> js_thrown + jsnum" where
  "pointer_clientX (MouseEv x) = Inr x"
| "pointer_clientX (TouchEv []) =
     Inl (Error_instance ''Cannot read properties of undefined'')"
| "pointer_clientX (TouchEv (x # xs)) = Inr x"

text \<open>The local \<open>time\<close> of \<open>handleTimelineClick\<close>: no clamp.\<close>

definition handleTimelineClick_time :: "DOMRect \<Rightarrow> jsnum \<Rightarrow> jsnum \<Rightarrow> jsnum" where
  "handleTimelineClick_time rect clientX dur =
     (let x = js_sub clientX (rect_left rect);
          percentage = js_div x (rect_width rect)
      in js_mul percentage dur)"

text \<open>
  Assigning a non-finite number to \<open>video.currentTime\<close> throws a \<open>TypeError\<close>, and
  \<open>setCurrentTime\<close> is then not reached.
\<close>

definition handleTimelineClick :: "pointer_event \<Rightarrow> timeline \<Rightarrow> timeline" where
  "handleTimelineClick e st =
     (case timelineRef st of
        None \<Rightarrow> st
      | Some rect \<Rightarrow>
          if \<not> videoRef st then st
          else (case pointer_clientX e of
                  Inl err \<Rightarrow> emit (Uncaught err) st
                | Inr clientX \<Rightarrow>
                    (let time = handleTimelineClick_time rect clientX (duration st)
                     in if \<not> is_finite time
                        then emit (Uncaught (Error_instance ''The provided double value is non-finite'')) st
                        else (emit (SetVideoCurrentTime time) st)\<lparr>currentTime := time\<rparr>)))"

text \<open>The local \<open>time\<close> of \<open>handleMarkerDrag\<close>: the fraction is clamped to \<open>[0, 1]\<close>.\<close>

definition handleMarkerDrag_time :: "DOMRect \<Rightarrow> jsnum \<Rightarrow> jsnum \<Rightarrow> jsnum" where
  "handleMarkerDrag_time rect clientX dur =
     (let x = js_sub clientX (rect_left rect);
          percentage = Math_max (Finite 0) (Math_min (Finite 1) (js_div x (rect_width rect)))
      in js_mul percentage dur)"

definition handleMarkerDrag :: "jsnum \<Rightarrow> bool \<Rightarrow> timeline \<Rightarrow> timeline" where
  "handleMarkerDrag clientX isStart st =
     (case timelineRef st of
        None \<Rightarrow> st
      | Some rect \<Rightarrow>
          (let time = handleMarkerDrag_time rect clientX (duration st)
           in if isStart
              then st\<lparr>startTime := Math_min time (js_sub (endTime st) (Finite 0.1))\<rparr>
              else st\<lparr>endTime := Math_max time (js_add (startTime st) (Finite 0.1))\<rparr>))"

text \<open>
  \<open>handleMove\<close>, the window-level listener of a drag (\<open>mousemove\<close> and
  \<open>touchmove\<close>): the start marker has priority over the end marker.
\<close>

definition handleMove :: "pointer_event \<Rightarrow> timeline \<Rightarrow> timeline" where
  "handleMove e st =
     (case pointer_clientX e of
        Inl err \<Rightarrow> emit (Uncaught err) st
      | Inr clientX \<Rightarrow>
          if isDraggingStart st then handleMarkerDrag clientX True st
          else if isDraggingEnd st then handleMarkerDrag clientX False st
          else st)"

definition handleEnd :: "timeline \<Rightarrow> timeline" where
  "handleEnd st = st\<lparr>isDraggingStart := False, isDraggingEnd := False\<rparr>"






section \<open>Rounding to binary64\<close>

text \<open>
  JavaScript holds every number as an IEEE 754 binary64 value and rounds the result of
  each arithmetic operation to the nearest such value, a tie going to the even
  significand. For a magnitude \<open>x\<close>, \<open>binade x\<close> is the exponent \<open>e\<close> with
  \<open>2 ^ e \<le> x < 2 ^ (e + 1)\<close>, not below \<open>-1022\<close> (the subnormal range) and at most
  \<open>1024\<close>; the representable magnitudes of that binade are the multiples of
  \<open>2 ^ (e - 52)\<close>. A result whose rounded magnitude reaches \<open>2 ^ 1024\<close> is infinite.
\<close>

definition pow2 :: "int \<Rightarrow> real" where
  "pow2 e = (if 0 \<le> e then 2 ^ nat e else 1 / 2 ^ nat (- e))"

fun halvings :: "nat \<Rightarrow> real \<Rightarrow> int" where
  "halvings 0 x = 0"
| "halvings (Suc n) x = (if 2 \<le> x then 1 + halvings n (x / 2) else 0)"

fun doublings :: "nat \<Rightarrow> real \<Rightarrow> int" where
  "doublings 0 x = 0"
| "doublings (Suc n) x = (if x < 1 then doublings n (2 * x) - 1 else 0)"

definition binade :: "real \<Rightarrow> int" where
  "binade x = (if 1 \<le> x then halvings 1024 x else doublings 1022 x)"

definition round_half_even :: "real \<Rightarrow> int" where
  "round_half_even q =
     (let f = \<lfloor>q\<rfloor>; r = q - of_int f
      in if r < 1 / 2 then f
         else if 1 / 2 < r then f + 1
         else if even f then f else f + 1)"

definition nearest_binary64 :: "real \<Rightarrow> real" where
  "nearest_binary64 x =
     (let ulp = pow2 (binade x - 52)
      in of_int (round_half_even (x / ulp)) * ulp)"

text \<open>The number that an exact result, or a decimal literal of the source, becomes.\<close>

definition js_number :: "real \<Rightarrow> jsnum" where
  "js_number x =
     (let m = nearest_binary64 \<bar>x\<bar>
      in if 2 ^ 1024 \<le> m then (if 0 < x then PosInfinity else NegInfinity)
         else Finite (if x < 0 then - m else m))"

fun js_round :: "jsnum \<Rightarrow> jsnum" where
  "js_round (Finite x) = js_number x"
| "js_round PosInfinity = PosInfinity"
| "js_round NegInfinity = NegInfinity"
| "js_round NaN = NaN"

text \<open>\<open>a < b\<close>: false when either side is \<open>NaN\<close>.\<close>

fun js_less :: "jsnum \<Rightarrow> jsnum \<Rightarrow> bool" where
  "js_less (Finite a) (Finite b) = (a < b)"
| "js_less (Finite a) PosInfinity = True"
| "js_less (Finite a) NegInfinity = False"
| "js_less PosInfinity b = False"
| "js_less NegInfinity (Finite b) = True"
| "js_less NegInfinity PosInfinity = True"
| "js_less NegInfinity NegInfinity = False"
| "js_less NaN b = False"
| "js_less a NaN = False"

text \<open>
  \<open>handleMarkerDrag\<close> in binary64 arithmetic: the same handler, with the result of
  every subtraction, division, multiplication and addition rounded, and the literal
  \<open>0.1\<close> the binary64 value nearest to one tenth.
\<close>

definition handleMarkerDrag_time_binary64 :: "DOMRect \<Rightarrow> jsnum \<Rightarrow> jsnum \<Rightarrow> jsnum" where
  "handleMarkerDrag_time_binary64 rect clientX dur =
     (let x = js_round (js_sub clientX (rect_left rect));
          percentage = Math_max (Finite 0)
                         (Math_min (Finite 1) (js_round (js_div x (rect_width rect))))
      in js_round (js_mul percentage dur))"

definition handleMarkerDrag_binary64 :: "jsnum \<Rightarrow> bool \<Rightarrow> timeline \<Rightarrow> timeline" where
  "handleMarkerDrag_binary64 clientX isStart st =
     (case timelineRef st of
        None \<Rightarrow> st
      | Some rect \<Rightarrow>
          (let time = handleMarkerDrag_time_binary64 rect clientX (duration st)
           in if isStart
              then st\<lparr>startTime :=
                        Math_min time (js_round (js_sub (endTime st) (js_number (1 / 10))))\<rparr>
              else st\<lparr>endTime :=
                        Math_max time (js_round (js_add (startTime st) (js_number (1 / 10))))\<rparr>))"

text \<open>
  The \<open>disabled\<close> attribute of the Trim button:
  \<open>isProcessing || !ffmpegLoaded || endTime - startTime < 0.1\<close>.
\<close>

definition trim_button_disabled :: "timeline \<Rightarrow> bool" where
  "trim_button_disabled st =
     (if isProcessing st then True
      else if \<not> ffmpegLoaded st then True
      else js_less (js_round (js_sub (endTime st) (startTime st))) (js_number (1 / 10)))"

section \<open>The trim operation\<close>

subsection \<open>Strings\<close>

text \<open>
  \<open>s.split(c)\<close> for a one-character separator: never the empty array, and the
  pieces between the separators in order.
\<close>

fun js_split :: "char \<Rightarrow> string \<Rightarrow> string list" where
  "js_split c [] = [[]]"
| "js_split c (x # xs) =
     (if x = c then [] # js_split c xs
      else (case js_split c xs of
              [] \<Rightarrow> [[x]]
            | piece # pieces \<Rightarrow> (x # piece) # pieces))"

text \<open>\<open>xs.pop()\<close> returns the last element, \<open>undefined\<close> (\<open>None\<close>) on the empty array.\<close>

fun pop :: "'a list \<Rightarrow> 'a option" where
  "pop [] = None"
| "pop [x] = Some x"
| "pop (x # y # ys) = pop (y # ys)"

text \<open>\<open>toLowerCase\<close> on the ASCII letters; other characters are left as they are.\<close>

definition toLowerCase_char :: "char \<Rightarrow> char" where
  "toLowerCase_char c =
     (let n = (of_char c :: nat)
      in if 65 \<le> n \<and> n \<le> 90 then char_of (n + 32) else c)"

definition toLowerCase :: "string \<Rightarrow> string" where
  "toLowerCase s = map toLowerCase_char s"

text \<open>
  \<open>videoFile.filename.split(".").pop()?.toLowerCase() || "mp4"\<close>: the default is
  taken when the piece after the last dot is empty.
\<close>

definition fileExtension :: "VideoFile \<Rightarrow> string" where
  "fileExtension vf =
     (case pop (js_split (CHR ''.'') (filename vf)) of
        None \<Rightarrow> ''mp4''
      | Some piece \<Rightarrow>
          (let lower = toLowerCase piece in if lower = [] then ''mp4'' else lower))"

definition inputFileName :: "VideoFile \<Rightarrow> string" where
  "inputFileName vf = ''input.'' @ fileExtension vf"

definition outputFileName :: "VideoFile \<Rightarrow> string" where
  "outputFileName vf = ''output.'' @ fileExtension vf"

subsection \<open>The engine and the browser\<close>

text \<open>
  What lies outside the repository is a parameter: the decimal form that
  \<open>Number.prototype.toString\<close> gives a finite number, the string that
  \<open>URL.createObjectURL\<close> returns, and the behaviour of the codec engine during one
  run: whether each call throws, the progress it reports during \<open>exec\<close> and the
  bytes \<open>readFile\<close> returns. \<open>fetchFile_result\<close> is read by the first variant of
  the component only.
\<close>

record env =
  number_toString :: "real \<Rightarrow> string"
  createObjectURL :: "Blob \<Rightarrow> string"
  fetchFile_result :: "js_thrown + bytes"
  writeFile_result :: "js_thrown option"
  exec_progress :: "real list"
  exec_result :: "js_thrown option"
  readFile_result :: "js_thrown + bytes"
  deleteFile_result :: "string \<Rightarrow> js_thrown option"

fun js_toString :: "env \<Rightarrow> jsnum \<Rightarrow> string" where
  "js_toString env (Finite r) = number_toString env r"
| "js_toString env PosInfinity = ''Infinity''"
| "js_toString env NegInfinity = ''-Infinity''"
| "js_toString env NaN = ''NaN''"

text \<open>
  The listener registered with \<open>ffmpeg.on("progress", \<dots>)\<close>:
  \<open>setProcessingProgress(Math.round(progress * 100))\<close>.
\<close>

definition Math_round :: "real \<Rightarrow> int" where
  "Math_round x = \<lfloor>x + 1 / 2\<rfloor>"

definition on_progress :: "real \<Rightarrow> timeline \<Rightarrow> timeline" where
  "on_progress progress st = st\<lparr>processingProgress := Math_round (progress * 100)\<rparr>"

fun report_progress :: "real list \<Rightarrow> timeline \<Rightarrow> timeline" where
  "report_progress [] st = st"
| "report_progress (p # ps) st = report_progress ps (on_progress p st)"

definition trim_args :: "env \<Rightarrow> VideoFile \<Rightarrow> timeline \<Rightarrow> string list" where
  "trim_args env vf st =
     [''-ss'', js_toString env (startTime st),
      ''-to'', js_toString env (endTime st),
      ''-i'', inputFileName vf,
      ''-c'', ''copy'',
      ''-avoid_negative_ts'', ''make_zero'',
      outputFileName vf]"

subsection \<open>\<open>handleTrim\<close>\<close>

text \<open>
  The part of the \<open>try\<close> block from \<open>ffmpeg.writeFile\<close> on, the same in both
  variants of the component. The result is the state reached and the value thrown, if
  any. One run is taken as one transition: other handlers running between two
  \<open>await\<close>s are not modelled, and \<open>console.log\<close> is left out.
\<close>

definition trim_with_data :: "env \<Rightarrow> VideoFile \<Rightarrow> bytes \<Rightarrow> timeline \<Rightarrow> timeline \<times> js_thrown option" where
  "trim_with_data env vf videoData st =
     (let st1 = emit (WriteFile (inputFileName vf) videoData) st
      in case writeFile_result env of
           Some err \<Rightarrow> (st1, Some err)
         | None \<Rightarrow>
             (let st2 = report_progress (exec_progress env) (emit (Exec (trim_args env vf st)) st1)
              in case exec_result env of
                   Some err \<Rightarrow> (st2, Some err)
                 | None \<Rightarrow>
                     (let st3 = emit (ReadFile (outputFileName vf)) st2
                      in case readFile_result env of
                           Inl err \<Rightarrow> (st3, Some err)
                         | Inr out \<Rightarrow>
                             (let blob = \<lparr>blob_parts = out, blob_type = ''video/'' @ fileExtension vf\<rparr>;
                                  st4 = emit (CreateObjectURL blob) st3;
                                  st5 = st4\<lparr>trimmedVideoUrl := Some (createObjectURL env blob),
                                            isProcessing := False,
                                            processingProgress := 100\<rparr>;
                                  st6 = toast ''Video trimmed successfully''
                                              ''Your video is ready to download'' False st5;
                                  st7 = emit (DeleteFile (inputFileName vf)) st6
                              in case deleteFile_result env (inputFileName vf) of
                                   Some err \<Rightarrow> (st7, Some err)
                                 | None \<Rightarrow>
                                     (let st8 = emit (DeleteFile (outputFileName vf)) st7
                                      in case deleteFile_result env (outputFileName vf) of
                                           Some err \<Rightarrow> (st8, Some err)
                                         | None \<Rightarrow> (st8, None))))))"

text \<open>The \<open>try\<close> block of the later variant, which takes the bytes from \<open>videoFile.data\<close>.\<close>

definition handleTrim_try :: "env \<Rightarrow> VideoFile \<Rightarrow> timeline \<Rightarrow> timeline \<times> js_thrown option" where
  "handleTrim_try env vf st =
     (case data vf of
        None \<Rightarrow> (st, Some (Error_instance ''Video data not available. Please re-upload the video.''))
      | Some videoData \<Rightarrow> trim_with_data env vf videoData st)"

text \<open>The \<open>try\<close> block of the first variant, which fetches the bytes from \<open>videoFile.url\<close>.\<close>

definition handleTrim_v1_try :: "env \<Rightarrow> VideoFile \<Rightarrow> timeline \<Rightarrow> timeline \<times> js_thrown option" where
  "handleTrim_v1_try env vf st =
     (case fetchFile_result env of
        Inl err \<Rightarrow> (st, Some err)
      | Inr videoData \<Rightarrow> trim_with_data env vf videoData st)"

text \<open>
  The \<open>catch\<close> block: \<open>error instanceof Error ? error.message : fallback\<close>, the
  destructive notification, then the two flags.
\<close>

fun error_description :: "string \<Rightarrow> js_thrown \<Rightarrow> string" where
  "error_description fallback (Error_instance message) = message"
| "error_description fallback (Other_value v) = fallback"

definition handleTrim_catch :: "string \<Rightarrow> js_thrown \<Rightarrow> timeline \<Rightarrow> timeline" where
  "handleTrim_catch fallback err st =
     (toast ''Failed to trim video'' (error_description fallback err) True st)
       \<lparr>isProcessing := False, processingProgress := 0\<rparr>"

text \<open>The guard \<open>!ffmpegRef.current || !ffmpegLoaded\<close>, evaluated left to right.\<close>

definition engine_not_ready :: "timeline \<Rightarrow> bool" where
  "engine_not_ready st = (if \<not> ffmpegRef st then True else \<not> ffmpegLoaded st)"

definition handleTrim :: "env \<Rightarrow> VideoFile \<Rightarrow> timeline \<Rightarrow> timeline" where
  "handleTrim env vf st =
     (if engine_not_ready st
      then toast ''Please wait'' ''Video editor is still loading'' False st
      else (case handleTrim_try env vf
                   (st\<lparr>isProcessing := True, trimmedVideoUrl := None, processingProgress := 0\<rparr>) of
              (st', None) \<Rightarrow> st'
            | (st', Some err) \<Rightarrow> handleTrim_catch ''Unknown error occurred'' err st'))"

definition handleTrim_v1 :: "env \<Rightarrow> VideoFile \<Rightarrow> timeline \<Rightarrow> timeline" where
  "handleTrim_v1 env vf st =
     (if engine_not_ready st
      then toast ''Please wait'' ''Video editor is still loading'' False st
      else (case handleTrim_v1_try env vf
                   (st\<lparr>isProcessing := True, trimmedVideoUrl := None, processingProgress := 0\<rparr>) of
              (st', None) \<Rightarrow> st'
            | (st', Some err) \<Rightarrow> handleTrim_catch ''Please try again'' err st'))"

subsection \<open>\<open>handleDownload\<close>\<close>

text \<open>
  \<open>if (!trimmedVideoUrl) return\<close>: \<open>null\<close> and the empty string are falsy. The
  transient link is created, given \<open>href\<close> and \<open>download\<close>, appended, clicked and
  removed; the model records the click with both attributes.
\<close>

definition handleDownload :: "VideoFile \<Rightarrow> timeline \<Rightarrow> timeline" where
  "handleDownload vf st =
     (case trimmedVideoUrl st of
        None \<Rightarrow> st
      | Some href \<Rightarrow>
          if href = [] then st
          else toast ''Download started'' ''Your trimmed video is being downloaded'' False
                 (emit (AnchorClick href (''trimmed-'' @ filename vf)) st))"


section \<open>Properties\<close>

subsection \<open>Predicates and example inputs\<close>

text \<open>
  The invariant of the trim range as the specification words it:
  \<open>0 \<le> start < end \<le> duration\<close> and \<open>end - start \<ge> 0.1\<close>, all three numbers finite.
\<close>

definition range_invariant :: "timeline \<Rightarrow> bool" where
  "range_invariant st =
     (case (startTime st, endTime st, duration st) of
        (Finite s, Finite e, Finite d) \<Rightarrow> 0 \<le> s \<and> s < e \<and> e \<le> d \<and> 1 / 10 \<le> e - s
      | _ \<Rightarrow> False)"




text \<open>The calls of the engine among the effects.\<close>

fun deleted_files :: "event list \<Rightarrow> string list" where
  "deleted_files [] = []"
| "deleted_files (DeleteFile name # es) = name # deleted_files es"
| "deleted_files (e # es) = deleted_files es"

fun exec_calls :: "event list \<Rightarrow> string list list" where
  "exec_calls [] = []"
| "exec_calls (Exec args # es) = args # exec_calls es"
| "exec_calls (e # es) = exec_calls es"

fun created_blobs :: "event list \<Rightarrow> Blob list" where
  "created_blobs [] = []"
| "created_blobs (CreateObjectURL blob # es) = blob # created_blobs es"
| "created_blobs (e # es) = created_blobs es"

text \<open>
  Example inputs: a timeline 200 pixels wide whose left edge is at 100; a ten-second
  clip and one of a twentieth of a second; an engine that is loaded and one run of
  it in which nothing throws.
\<close>

definition example_rect :: DOMRect where
  "example_rect = \<lparr>rect_left = Finite 100, rect_width = Finite 200\<rparr>"

definition ten_seconds :: timeline where
  "ten_seconds = handleLoadedMetadata (Finite 10) (initial_timeline example_rect)"


definition engine_loaded :: timeline where
  "engine_loaded = ten_seconds\<lparr>ffmpegRef := True, ffmpegLoaded := True\<rparr>"

fun example_toString :: "real \<Rightarrow> string" where
  "example_toString r = (if r = 0 then ''0'' else ''10'')"

fun example_createObjectURL :: "Blob \<Rightarrow> string" where
  "example_createObjectURL blob = ''blob:1''"

fun nothing_thrown :: "string \<Rightarrow> js_thrown option" where
  "nothing_thrown name = None"

definition smooth_run :: env where
  "smooth_run =
     \<lparr>number_toString = example_toString,
      createObjectURL = example_createObjectURL,
      fetchFile_result = Inr [1, 2, 3],
      writeFile_result = None,
      exec_progress = [1 / 2, 1],
      exec_result = None,
      readFile_result = Inr [2],
      deleteFile_result = nothing_thrown\<rparr>"

definition clip_mp4 :: VideoFile where
  "clip_mp4 = \<lparr>url = ''blob:0'', filename = ''clip.mp4'', file_size = 3,
                mime_type = ''video/mp4'', data = Some [1, 2, 3]\<rparr>"

definition clip_mov :: VideoFile where
  "clip_mov = \<lparr>url = ''blob:0'', filename = ''clip.mov'', file_size = 3,
                mime_type = ''video/quicktime'', data = Some [1, 2, 3]\<rparr>"

text \<open>
  The state after the metadata of a clip of a twentieth of a second (as a binary64 number)
  has resolved; and files whose names have an upper-case extension, no extension, and a
  dot at the end.
\<close>

definition short_clip_binary64 :: timeline where
  "short_clip_binary64 =
     handleLoadedMetadata (js_number (1 / 20)) (initial_timeline example_rect)"

definition holiday_mov :: VideoFile where
  "holiday_mov = clip_mov\<lparr>filename := ''Holiday.2024.MOV''\<rparr>"

definition no_extension :: VideoFile where
  "no_extension = clip_mp4\<lparr>filename := ''video''\<rparr>"

definition trailing_dot :: VideoFile where
  "trailing_dot = clip_mp4\<lparr>filename := ''clip.''\<rparr>"

text \<open>
  The engine still loading; and runs in which \<open>exec\<close> throws an \<open>Error\<close>,
  \<open>readFile\<close> rejects with a string, and the deletion of the staged input throws.
\<close>

definition engine_loading :: timeline where
  "engine_loading = ten_seconds\<lparr>ffmpegRef := True\<rparr>"

definition exec_fails :: env where
  "exec_fails = smooth_run\<lparr>exec_result := Some (Error_instance ''Aborted()'')\<rparr>"

definition read_fails :: env where
  "read_fails = smooth_run\<lparr>readFile_result := Inl (Other_value ''ErrnoError: FS error'')\<rparr>"

fun always_thrown :: "string \<Rightarrow> js_thrown option" where
  "always_thrown name = Some (Error_instance ''ErrnoError: FS error'')"

definition cleanup_fails :: env where
  "cleanup_fails = smooth_run\<lparr>deleteFile_result := always_thrown\<rparr>"


subsection \<open>The coordinate mapping\<close>

lemma handleMarkerDrag_time_finite:
  assumes "0 < w"
  shows "handleMarkerDrag_time \<lparr>rect_left = Finite l, rect_width = Finite w\<rparr> (Finite x) (Finite d)
         = Finite (max 0 (min 1 ((x - l) / w)) * d)"
  using assms by (simp add: handleMarkerDrag_time_def js_sub_def)

lemma handleTimelineClick_time_finite:
  assumes "0 < w"
  shows "handleTimelineClick_time \<lparr>rect_left = Finite l, rect_width = Finite w\<rparr> (Finite x) (Finite d)
         = Finite ((x - l) / w * d)"
  using assms by (simp add: handleTimelineClick_time_def js_sub_def)



text \<open>
  The drag handler maps every pointer position, inside the element or not, to the
  clamped fraction of the duration, a time in \<open>[0, D]\<close>.
\<close>

lemma handleMarkerDrag_time_clamped:
  assumes "0 < w" and "0 < d"
  shows "\<exists>t. handleMarkerDrag_time \<lparr>rect_left = Finite l, rect_width = Finite w\<rparr> (Finite x) (Finite d) = Finite t
           \<and> t = max 0 (min 1 ((x - l) / w)) * d \<and> 0 \<le> t \<and> t \<le> d"
proof -
  let ?f = "max 0 (min 1 ((x - l) / w))"
  have f: "0 \<le> ?f" "?f \<le> 1" by simp_all
  from assms(2) have d: "0 \<le> d" by simp
  have "0 \<le> ?f * d" using f(1) d by (rule mult_nonneg_nonneg)
  moreover have "?f * d \<le> d" using mult_right_mono [OF f(2) d] by simp
  ultimately show ?thesis using handleMarkerDrag_time_finite [OF assms(1)] by simp
qed

text \<open>
  C2. The claim gives click-to-seek the same clamped mapping as the marker drag. A click
  20 pixels left of the timeline's edge (on the part of the start marker's hit region
  that overhangs the edge) is mapped to \<open>-1\<close> second of a ten-second clip, while the
  drag handler maps the same position to \<open>0\<close>.
\<close>

theorem handleTimelineClick_not_clamped:
  "currentTime (handleTimelineClick (MouseEv (Finite 80)) ten_seconds) = Finite (- 1)
   \<and> events (handleTimelineClick (MouseEv (Finite 80)) ten_seconds) = [SetVideoCurrentTime (Finite (- 1))]
   \<and> handleMarkerDrag_time example_rect (Finite 80) (duration ten_seconds) = Finite 0"
  by (simp add: handleTimelineClick_def handleTimelineClick_time_def handleMarkerDrag_time_def
      ten_seconds_def example_rect_def handleLoadedMetadata_def initial_timeline_def
      js_sub_def emit_def Let_def)

subsection \<open>The trim range under marker drags\<close>






subsection \<open>The minimum range in binary64 arithmetic\<close>

lemma halvings_numeral:
  "halvings (numeral k) x = (if 2 \<le> x then 1 + halvings (pred_numeral k) (x / 2) else 0)"
  by (simp add: numeral_eq_Suc)

lemma doublings_numeral:
  "doublings (numeral k) x = (if x < 1 then doublings (pred_numeral k) (2 * x) - 1 else 0)"
  by (simp add: numeral_eq_Suc)

lemmas binary64_eval = js_number_def nearest_binary64_def binade_def halvings_numeral
  doublings_numeral pow2_def round_half_even_def Let_def

text \<open>The literal \<open>0.1\<close> is slightly more than one tenth.\<close>

lemma js_number_tenth:
  "js_number (1 / 10) = Finite (3602879701896397 / 2 ^ 55)"
  "(1 / 10 :: real) < 3602879701896397 / 2 ^ 55"
  by (simp_all add: binary64_eval)

text \<open>
  C3. The clamp of the drag handler is there to keep \<open>end - start \<ge> 0.1\<close>, the test
  under which the Trim button is enabled. In binary64 arithmetic it does not: on a
  ten-second clip, dragging the start marker to the far right sets \<open>start\<close> to the
  rounded \<open>10 - 0.1\<close>, which is \<open>9.9000000000000003553\<close>; then \<open>end - start\<close> is
  \<open>0.09999999999999964\<close>, below \<open>0.1\<close>, the range invariant is broken and the Trim button,
  enabled before the drag, is disabled. On a clip of a twentieth of a second one drag of
  the start marker puts \<open>start\<close> below zero.
\<close>

theorem handleMarkerDrag_breaks_minimum_range:
  "startTime (handleMarkerDrag_binary64 (Finite 350) True engine_loaded) =
     Finite (5573204538870989 / 2 ^ 49)
   \<and> endTime (handleMarkerDrag_binary64 (Finite 350) True engine_loaded) = Finite 10
   \<and> duration (handleMarkerDrag_binary64 (Finite 350) True engine_loaded) = Finite 10
   \<and> js_round (js_sub (endTime (handleMarkerDrag_binary64 (Finite 350) True engine_loaded))
                      (startTime (handleMarkerDrag_binary64 (Finite 350) True engine_loaded))) =
     Finite (56294995342131 / 2 ^ 49)
   \<and> (56294995342131 / 2 ^ 49 :: real) < 1 / 10
   \<and> \<not> range_invariant (handleMarkerDrag_binary64 (Finite 350) True engine_loaded)
   \<and> \<not> trim_button_disabled engine_loaded
   \<and> trim_button_disabled (handleMarkerDrag_binary64 (Finite 350) True engine_loaded)
   \<and> startTime (handleMarkerDrag_binary64 (Finite 150) True short_clip_binary64) =
     Finite (- (3602879701896397 / 2 ^ 56))
   \<and> \<not> range_invariant (handleMarkerDrag_binary64 (Finite 150) True short_clip_binary64)"
  by (simp add: handleMarkerDrag_binary64_def handleMarkerDrag_time_binary64_def
      engine_loaded_def ten_seconds_def short_clip_binary64_def handleLoadedMetadata_def
      initial_timeline_def example_rect_def js_sub_def range_invariant_def
      trim_button_disabled_def binary64_eval)



subsection \<open>The derived positions\<close>







subsection \<open>The trim run\<close>

lemma events_emit: "events (emit e st) = events st @ [e]"
  by (simp add: emit_def)

lemma events_toast: "events (toast title description destructive st) = events st @ [Toast title description destructive]"
  by (simp add: toast_def emit_def)

lemma events_report_progress: "events (report_progress ps st) = events st"
  by (induction ps arbitrary: st) (simp_all add: on_progress_def)

lemma deleted_files_append: "deleted_files (xs @ ys) = deleted_files xs @ deleted_files ys"
  by (induction xs rule: deleted_files.induct) simp_all

lemma exec_calls_append: "exec_calls (xs @ ys) = exec_calls xs @ exec_calls ys"
  by (induction xs rule: exec_calls.induct) simp_all

lemma created_blobs_append: "created_blobs (xs @ ys) = created_blobs xs @ created_blobs ys"
  by (induction xs rule: created_blobs.induct) simp_all

text \<open>The events that the shared part of the \<open>try\<close> block adds, by the outcome of each call.\<close>

lemma trim_with_data_events:
  "events (fst (trim_with_data env vf videoData st)) =
     events st @ WriteFile (inputFileName vf) videoData #
       (case writeFile_result env of
          Some err \<Rightarrow> []
        | None \<Rightarrow> Exec (trim_args env vf st) #
            (case exec_result env of
               Some err \<Rightarrow> []
             | None \<Rightarrow> ReadFile (outputFileName vf) #
                 (case readFile_result env of
                    Inl err \<Rightarrow> []
                  | Inr out \<Rightarrow>
                      CreateObjectURL \<lparr>blob_parts = out, blob_type = ''video/'' @ fileExtension vf\<rparr> #
                      Toast ''Video trimmed successfully'' ''Your video is ready to download'' False #
                      DeleteFile (inputFileName vf) #
                      (case deleteFile_result env (inputFileName vf) of
                         Some err \<Rightarrow> []
                       | None \<Rightarrow> [DeleteFile (outputFileName vf)]))))"
  by (simp add: trim_with_data_def Let_def events_emit events_toast events_report_progress
      split: option.splits sum.splits)

lemma trim_args_state:
  "trim_args env vf (st\<lparr>isProcessing := a, trimmedVideoUrl := b, processingProgress := c\<rparr>)
   = trim_args env vf st"
  by (simp add: trim_args_def)

lemma handleTrim_events_ready:
  assumes "\<not> engine_not_ready st"
  shows "events (handleTrim env vf st) =
     events (fst (handleTrim_try env vf
        (st\<lparr>isProcessing := True, trimmedVideoUrl := None, processingProgress := 0\<rparr>))) @
     (case snd (handleTrim_try env vf
        (st\<lparr>isProcessing := True, trimmedVideoUrl := None, processingProgress := 0\<rparr>)) of
        None \<Rightarrow> []
      | Some err \<Rightarrow> [Toast ''Failed to trim video'' (error_description ''Unknown error occurred'' err) True])"
  using assms
  by (simp add: handleTrim_def handleTrim_catch_def events_toast split: prod.splits option.splits)

lemma handleTrim_v1_events_ready:
  assumes "\<not> engine_not_ready st"
  shows "events (handleTrim_v1 env vf st) =
     events (fst (handleTrim_v1_try env vf
        (st\<lparr>isProcessing := True, trimmedVideoUrl := None, processingProgress := 0\<rparr>))) @
     (case snd (handleTrim_v1_try env vf
        (st\<lparr>isProcessing := True, trimmedVideoUrl := None, processingProgress := 0\<rparr>)) of
        None \<Rightarrow> []
      | Some err \<Rightarrow> [Toast ''Failed to trim video'' (error_description ''Please try again'' err) True])"
  using assms
  by (simp add: handleTrim_v1_def handleTrim_catch_def events_toast split: prod.splits option.splits)

lemma handleTrim_events_not_ready:
  assumes "engine_not_ready st"
  shows "events (handleTrim env vf st) = events st @ [Toast ''Please wait'' ''Video editor is still loading'' False]"
    and "events (handleTrim_v1 env vf st) = events st @ [Toast ''Please wait'' ''Video editor is still loading'' False]"
  using assms by (simp_all add: handleTrim_def handleTrim_v1_def events_toast)

lemma engine_not_ready_iff: "engine_not_ready st = (\<not> (ffmpegRef st \<and> ffmpegLoaded st))"
  by (simp add: engine_not_ready_def)

lemma handleTrim_try_events_cases:
  "events (fst (handleTrim_try env vf st)) =
     (case data vf of
        None \<Rightarrow> events st
      | Some videoData \<Rightarrow> events (fst (trim_with_data env vf videoData st)))"
  by (simp add: handleTrim_try_def split: option.splits)

lemma handleTrim_v1_try_events_cases:
  "events (fst (handleTrim_v1_try env vf st)) =
     (case fetchFile_result env of
        Inl err \<Rightarrow> events st
      | Inr videoData \<Rightarrow> events (fst (trim_with_data env vf videoData st)))"
  by (simp add: handleTrim_v1_try_def split: sum.splits)

text \<open>What one run of each variant adds to the effects, whether the engine is ready or not.\<close>

lemma handleTrim_events:
  "events (handleTrim env vf st) =
     (if engine_not_ready st
      then events st @ [Toast ''Please wait'' ''Video editor is still loading'' False]
      else events (fst (handleTrim_try env vf
              (st\<lparr>isProcessing := True, trimmedVideoUrl := None, processingProgress := 0\<rparr>))) @
           (case snd (handleTrim_try env vf
              (st\<lparr>isProcessing := True, trimmedVideoUrl := None, processingProgress := 0\<rparr>)) of
              None \<Rightarrow> []
            | Some err \<Rightarrow> [Toast ''Failed to trim video''
                              (error_description ''Unknown error occurred'' err) True]))"
  by (simp add: handleTrim_events_ready handleTrim_events_not_ready)

lemma handleTrim_v1_events:
  "events (handleTrim_v1 env vf st) =
     (if engine_not_ready st
      then events st @ [Toast ''Please wait'' ''Video editor is still loading'' False]
      else events (fst (handleTrim_v1_try env vf
              (st\<lparr>isProcessing := True, trimmedVideoUrl := None, processingProgress := 0\<rparr>))) @
           (case snd (handleTrim_v1_try env vf
              (st\<lparr>isProcessing := True, trimmedVideoUrl := None, processingProgress := 0\<rparr>)) of
              None \<Rightarrow> []
            | Some err \<Rightarrow> [Toast ''Failed to trim video''
                              (error_description ''Please try again'' err) True]))"
  by (simp add: handleTrim_v1_events_ready handleTrim_events_not_ready)

subsection \<open>The extension of the file name\<close>

lemma length_js_split: "length (js_split c s) = Suc (length (filter (\<lambda>x. x = c) s))"
  by (induction s) (auto split: list.splits)

lemma js_split_not_Nil: "js_split c s \<noteq> []"
  using length_js_split [of c s] by auto

lemma pop_last: "xs \<noteq> [] \<Longrightarrow> pop xs = Some (last xs)"
  by (induction xs rule: pop.induct) simp_all

lemma js_split_no_separator: "c \<notin> set s \<Longrightarrow> js_split c s = [s]"
  by (induction s) auto

lemma last_js_split_Cons:
  assumes "c \<in> set s"
  shows "last (js_split c (x # s)) = last (js_split c s)"
proof (cases "x = c")
  case True
  then show ?thesis by (simp add: js_split_not_Nil)
next
  case False
  from assms have "filter (\<lambda>y. y = c) s \<noteq> []"
    by (simp add: filter_empty_conv)
  then have "2 \<le> length (js_split c s)"
    by (cases "filter (\<lambda>y. y = c) s") (simp_all add: length_js_split)
  then obtain piece other pieces where "js_split c s = piece # other # pieces"
    by (cases "js_split c s"; cases "tl (js_split c s)") auto
  with False show ?thesis by simp
qed

lemma last_js_split_append:
  "last (js_split c (base @ c # ext)) = last (js_split c ext)"
proof (induction base)
  case Nil
  show ?case by (simp add: js_split_not_Nil)
next
  case (Cons x base)
  have "c \<in> set (base @ c # ext)" by simp
  then have "last (js_split c (x # base @ c # ext)) = last (js_split c (base @ c # ext))"
    by (rule last_js_split_Cons)
  with Cons.IH show ?case by simp
qed

text \<open>\<open>split(".").pop()\<close> is the text after the last dot.\<close>

lemma pop_js_split_extension:
  assumes "c \<notin> set ext"
  shows "pop (js_split c (base @ c # ext)) = Some ext"
  using assms
  by (simp add: pop_last js_split_not_Nil last_js_split_append js_split_no_separator)

lemma fileExtension_after_last_dot:
  assumes "filename vf = base @ CHR ''.'' # ext" and "CHR ''.'' \<notin> set ext" and "ext \<noteq> []"
  shows "fileExtension vf = toLowerCase ext"
  using assms by (simp add: fileExtension_def pop_js_split_extension toLowerCase_def)

lemma fileExtension_no_dot:
  assumes "CHR ''.'' \<notin> set (filename vf)" and "filename vf \<noteq> []"
  shows "fileExtension vf = toLowerCase (filename vf)"
  using assms by (simp add: fileExtension_def js_split_no_separator toLowerCase_def)

lemma fileExtension_default:
  "filename vf = base @ ''.'' \<Longrightarrow> fileExtension vf = ''mp4''"
  "filename vf = [] \<Longrightarrow> fileExtension vf = ''mp4''"
  using pop_js_split_extension [of "CHR ''.''" "[]" base]
  by (simp_all add: fileExtension_def toLowerCase_def)

subsection \<open>The call of the engine\<close>

text \<open>
  C6. A run of either variant calls \<open>exec\<close> at most once: exactly when the engine is ready,
  the bytes are there and staging them did not throw. The argument list is then
  \<open>["-ss", start, "-to", end, "-i", inputName, "-c", "copy", "-avoid_negative_ts",
  "make_zero", outputName]\<close>, the two times in their string form. The input name is
  \<open>input.\<close> and the output name \<open>output.\<close> followed by the extension of the file name:
  the text after its last dot in lower case, the whole name in lower case when it has no
  dot, and \<open>mp4\<close> when that text is empty. No other field of the file enters.
\<close>

theorem handleTrim_exec_argument_list:
  "exec_calls (events (handleTrim env vf st)) =
     exec_calls (events st) @
     (if ffmpegRef st \<and> ffmpegLoaded st \<and> data vf \<noteq> None \<and> writeFile_result env = None
      then [[''-ss'', js_toString env (startTime st), ''-to'', js_toString env (endTime st),
             ''-i'', inputFileName vf, ''-c'', ''copy'', ''-avoid_negative_ts'', ''make_zero'',
             outputFileName vf]]
      else [])
   \<and> exec_calls (events (handleTrim_v1 env vf st)) =
     exec_calls (events st) @
     (if ffmpegRef st \<and> ffmpegLoaded st \<and> \<not> isl (fetchFile_result env) \<and> writeFile_result env = None
      then [[''-ss'', js_toString env (startTime st), ''-to'', js_toString env (endTime st),
             ''-i'', inputFileName vf, ''-c'', ''copy'', ''-avoid_negative_ts'', ''make_zero'',
             outputFileName vf]]
      else [])
   \<and> inputFileName vf = ''input.'' @ fileExtension vf
   \<and> inputFileName (vf\<lparr>url := u, file_size := n, mime_type := m, data := d\<rparr>) = inputFileName vf
   \<and> (filename vf = base @ CHR ''.'' # ext \<and> CHR ''.'' \<notin> set ext \<and> ext \<noteq> [] \<longrightarrow>
        inputFileName vf = ''input.'' @ map toLowerCase_char ext
        \<and> outputFileName vf = ''output.'' @ map toLowerCase_char ext)
   \<and> (CHR ''.'' \<notin> set (filename vf) \<and> filename vf \<noteq> [] \<longrightarrow>
        inputFileName vf = ''input.'' @ map toLowerCase_char (filename vf)
        \<and> outputFileName vf = ''output.'' @ map toLowerCase_char (filename vf))
   \<and> (filename vf = base @ ''.'' \<longrightarrow>
        inputFileName vf = ''input.mp4'' \<and> outputFileName vf = ''output.mp4'')
   \<and> (filename vf = [] \<longrightarrow>
        inputFileName vf = ''input.mp4'' \<and> outputFileName vf = ''output.mp4'')"
proof -
  have v2: "exec_calls (events (handleTrim env vf st)) =
     exec_calls (events st) @
     (if ffmpegRef st \<and> ffmpegLoaded st \<and> data vf \<noteq> None \<and> writeFile_result env = None
      then [trim_args env vf st] else [])"
    by (simp add: handleTrim_events handleTrim_try_events_cases trim_with_data_events
        trim_args_state engine_not_ready_iff exec_calls_append
        split: option.splits sum.splits)
  have v1: "exec_calls (events (handleTrim_v1 env vf st)) =
     exec_calls (events st) @
     (if ffmpegRef st \<and> ffmpegLoaded st \<and> \<not> isl (fetchFile_result env) \<and> writeFile_result env = None
      then [trim_args env vf st] else [])"
    by (simp add: handleTrim_v1_events handleTrim_v1_try_events_cases trim_with_data_events
        trim_args_state engine_not_ready_iff exec_calls_append
        split: option.splits sum.splits)
  have names: "inputFileName vf = ''input.'' @ fileExtension vf"
    "inputFileName (vf\<lparr>url := u, file_size := n, mime_type := m, data := d\<rparr>) = inputFileName vf"
    by (simp_all add: inputFileName_def fileExtension_def)
  have ext: "filename vf = base @ CHR ''.'' # ext \<and> CHR ''.'' \<notin> set ext \<and> ext \<noteq> [] \<longrightarrow>
        inputFileName vf = ''input.'' @ map toLowerCase_char ext
        \<and> outputFileName vf = ''output.'' @ map toLowerCase_char ext"
    using fileExtension_after_last_dot [of vf base ext]
    by (simp add: inputFileName_def outputFileName_def toLowerCase_def)
  have nodot: "CHR ''.'' \<notin> set (filename vf) \<and> filename vf \<noteq> [] \<longrightarrow>
        inputFileName vf = ''input.'' @ map toLowerCase_char (filename vf)
        \<and> outputFileName vf = ''output.'' @ map toLowerCase_char (filename vf)"
    using fileExtension_no_dot [of vf]
    by (simp add: inputFileName_def outputFileName_def toLowerCase_def)
  have dflt: "filename vf = base @ ''.'' \<longrightarrow>
        inputFileName vf = ''input.mp4'' \<and> outputFileName vf = ''output.mp4''"
    "filename vf = [] \<longrightarrow>
        inputFileName vf = ''input.mp4'' \<and> outputFileName vf = ''output.mp4''"
    using fileExtension_default(1) [of vf base] fileExtension_default(2) [of vf]
    by (simp_all add: inputFileName_def outputFileName_def)
  from v2 v1 names ext nodot dflt show ?thesis
    by (simp only: trim_args_def simp_thms)
qed

theorem handleTrim_exec_argument_list_witness:
  "exec_calls (events (handleTrim smooth_run holiday_mov engine_loaded)) =
     [[''-ss'', ''0'', ''-to'', ''10'', ''-i'', ''input.mov'', ''-c'', ''copy'',
       ''-avoid_negative_ts'', ''make_zero'', ''output.mov'']]
   \<and> exec_calls (events (handleTrim_v1 smooth_run holiday_mov engine_loaded)) =
     [[''-ss'', ''0'', ''-to'', ''10'', ''-i'', ''input.mov'', ''-c'', ''copy'',
       ''-avoid_negative_ts'', ''make_zero'', ''output.mov'']]
   \<and> exec_calls (events (handleTrim exec_fails clip_mp4 engine_loading)) = []
   \<and> filename holiday_mov = ''Holiday.2024'' @ CHR ''.'' # ''MOV''
   \<and> CHR ''.'' \<notin> set ''MOV'' \<and> ''MOV'' \<noteq> []
   \<and> inputFileName holiday_mov = ''input.mov''
   \<and> outputFileName holiday_mov = ''output.mov''
   \<and> CHR ''.'' \<notin> set (filename no_extension) \<and> filename no_extension \<noteq> []
   \<and> inputFileName no_extension = ''input.video''
   \<and> filename trailing_dot = ''clip'' @ ''.''
   \<and> inputFileName trailing_dot = ''input.mp4''
   \<and> filename (clip_mp4\<lparr>filename := []\<rparr>) = []
   \<and> inputFileName (clip_mp4\<lparr>filename := []\<rparr>) = ''input.mp4''"
proof -
  have lower: "map toLowerCase_char ''MOV'' = ''mov''"
    "map toLowerCase_char ''video'' = ''video''"
    by code_simp+
  have st: "exec_calls (events engine_loaded) = []" "ffmpegRef engine_loaded"
    "ffmpegLoaded engine_loaded" "startTime engine_loaded = Finite 0"
    "endTime engine_loaded = Finite 10"
    "exec_calls (events engine_loading) = []" "\<not> ffmpegLoaded engine_loading"
    by (simp_all add: engine_loaded_def engine_loading_def ten_seconds_def
        handleLoadedMetadata_def initial_timeline_def)
  have run: "data holiday_mov \<noteq> None" "writeFile_result smooth_run = None"
    "\<not> isl (fetchFile_result smooth_run)" "number_toString smooth_run = example_toString"
    by (simp_all add: holiday_mov_def clip_mov_def smooth_run_def)
  have h: "filename holiday_mov = ''Holiday.2024'' @ CHR ''.'' # ''MOV''"
    "CHR ''.'' \<notin> set ''MOV''" "''MOV'' \<noteq> []"
    by (simp_all add: holiday_mov_def)
  have n: "CHR ''.'' \<notin> set (filename no_extension)" "filename no_extension \<noteq> []"
    "filename no_extension = ''video''"
    by (simp_all add: no_extension_def)
  have t: "filename trailing_dot = ''clip'' @ ''.''"
    by (simp add: trailing_dot_def)
  have e: "filename (clip_mp4\<lparr>filename := []\<rparr>) = []"
    by simp
  note at_holiday = handleTrim_exec_argument_list
         [where env = smooth_run and vf = holiday_mov and st = engine_loaded
            and base = "''Holiday.2024''" and ext = "''MOV''"
            and u = "[]" and n = 0 and m = "[]" and d = None]
  from at_holiday
  have "filename holiday_mov = ''Holiday.2024'' @ CHR ''.'' # ''MOV''
          \<and> CHR ''.'' \<notin> set ''MOV'' \<and> ''MOV'' \<noteq> [] \<longrightarrow>
        inputFileName holiday_mov = ''input.'' @ map toLowerCase_char ''MOV''
        \<and> outputFileName holiday_mov = ''output.'' @ map toLowerCase_char ''MOV''"
    by blast
  with h have names: "inputFileName holiday_mov = ''input.mov''"
    "outputFileName holiday_mov = ''output.mov''"
    by (simp_all only: lower simp_thms append.simps)
  from at_holiday
  have "exec_calls (events (handleTrim smooth_run holiday_mov engine_loaded)) =
     exec_calls (events engine_loaded) @
     (if ffmpegRef engine_loaded \<and> ffmpegLoaded engine_loaded \<and> data holiday_mov \<noteq> None
         \<and> writeFile_result smooth_run = None
      then [[''-ss'', js_toString smooth_run (startTime engine_loaded),
             ''-to'', js_toString smooth_run (endTime engine_loaded),
             ''-i'', inputFileName holiday_mov, ''-c'', ''copy'', ''-avoid_negative_ts'',
             ''make_zero'', outputFileName holiday_mov]]
      else [])"
    and "exec_calls (events (handleTrim_v1 smooth_run holiday_mov engine_loaded)) =
     exec_calls (events engine_loaded) @
     (if ffmpegRef engine_loaded \<and> ffmpegLoaded engine_loaded
         \<and> \<not> isl (fetchFile_result smooth_run) \<and> writeFile_result smooth_run = None
      then [[''-ss'', js_toString smooth_run (startTime engine_loaded),
             ''-to'', js_toString smooth_run (endTime engine_loaded),
             ''-i'', inputFileName holiday_mov, ''-c'', ''copy'', ''-avoid_negative_ts'',
             ''make_zero'', outputFileName holiday_mov]]
      else [])"
    by blast+
  with st run names
  have 1: "exec_calls (events (handleTrim smooth_run holiday_mov engine_loaded)) =
     [[''-ss'', ''0'', ''-to'', ''10'', ''-i'', ''input.mov'', ''-c'', ''copy'',
       ''-avoid_negative_ts'', ''make_zero'', ''output.mov'']]"
    and 2: "exec_calls (events (handleTrim_v1 smooth_run holiday_mov engine_loaded)) =
     [[''-ss'', ''0'', ''-to'', ''10'', ''-i'', ''input.mov'', ''-c'', ''copy'',
       ''-avoid_negative_ts'', ''make_zero'', ''output.mov'']]"
    by simp_all
  from handleTrim_exec_argument_list
         [where env = exec_fails and vf = clip_mp4 and st = engine_loading
            and base = "[]" and ext = "[]"
            and u = "[]" and n = 0 and m = "[]" and d = None]
  have "exec_calls (events (handleTrim exec_fails clip_mp4 engine_loading)) =
     exec_calls (events engine_loading) @
     (if ffmpegRef engine_loading \<and> ffmpegLoaded engine_loading \<and> data clip_mp4 \<noteq> None
         \<and> writeFile_result exec_fails = None
      then [[''-ss'', js_toString exec_fails (startTime engine_loading),
             ''-to'', js_toString exec_fails (endTime engine_loading),
             ''-i'', inputFileName clip_mp4, ''-c'', ''copy'', ''-avoid_negative_ts'',
             ''make_zero'', outputFileName clip_mp4]]
      else [])"
    by blast
  with st have 3: "exec_calls (events (handleTrim exec_fails clip_mp4 engine_loading)) = []"
    by simp
  from handleTrim_exec_argument_list
         [where env = smooth_run and vf = no_extension and st = engine_loaded
            and base = "[]" and ext = "[]"
            and u = "[]" and n = 0 and m = "[]" and d = None]
  have "CHR ''.'' \<notin> set (filename no_extension) \<and> filename no_extension \<noteq> [] \<longrightarrow>
        inputFileName no_extension = ''input.'' @ map toLowerCase_char (filename no_extension)
        \<and> outputFileName no_extension = ''output.'' @ map toLowerCase_char (filename no_extension)"
    by blast
  with n have 4: "inputFileName no_extension = ''input.video''"
    by (simp only: lower simp_thms append.simps)
  from handleTrim_exec_argument_list
         [where env = smooth_run and vf = trailing_dot and st = engine_loaded
            and base = "''clip''" and ext = "[]"
            and u = "[]" and n = 0 and m = "[]" and d = None]
  have "filename trailing_dot = ''clip'' @ ''.'' \<longrightarrow>
        inputFileName trailing_dot = ''input.mp4'' \<and> outputFileName trailing_dot = ''output.mp4''"
    by blast
  with t have 5: "inputFileName trailing_dot = ''input.mp4''"
    by blast
  from handleTrim_exec_argument_list
         [where env = smooth_run and vf = "clip_mp4\<lparr>filename := []\<rparr>" and st = engine_loaded
            and base = "[]" and ext = "[]"
            and u = "[]" and n = 0 and m = "[]" and d = None]
  have "filename (clip_mp4\<lparr>filename := []\<rparr>) = [] \<longrightarrow>
        inputFileName (clip_mp4\<lparr>filename := []\<rparr>) = ''input.mp4''
        \<and> outputFileName (clip_mp4\<lparr>filename := []\<rparr>) = ''output.mp4''"
    by blast
  with e have 6: "inputFileName (clip_mp4\<lparr>filename := []\<rparr>) = ''input.mp4''"
    by blast
  from 1 2 3 h names n(1,2) 4 t 5 e 6 show ?thesis
    by (intro conjI)
qed

subsection \<open>Cleanup of the staged files\<close>

text \<open>
  What a run of either variant deletes: the staged input and then, if that did not throw,
  the output, when staging, the cut and the retrieval of the output all succeeded, and
  nothing on every other path.
\<close>

lemma handleTrim_deleted_files:
  "deleted_files (events (handleTrim env vf st)) =
     deleted_files (events st) @
     (if ffmpegRef st \<and> ffmpegLoaded st \<and> data vf \<noteq> None \<and> writeFile_result env = None
         \<and> exec_result env = None \<and> \<not> isl (readFile_result env)
      then (if deleteFile_result env (inputFileName vf) = None
            then [inputFileName vf, outputFileName vf] else [inputFileName vf])
      else [])
   \<and> deleted_files (events (handleTrim_v1 env vf st)) =
     deleted_files (events st) @
     (if ffmpegRef st \<and> ffmpegLoaded st \<and> \<not> isl (fetchFile_result env) \<and> writeFile_result env = None
         \<and> exec_result env = None \<and> \<not> isl (readFile_result env)
      then (if deleteFile_result env (inputFileName vf) = None
            then [inputFileName vf, outputFileName vf] else [inputFileName vf])
      else [])"
proof -
  have v2: "deleted_files (events (handleTrim env vf st)) =
     deleted_files (events st) @
     (if ffmpegRef st \<and> ffmpegLoaded st \<and> data vf \<noteq> None \<and> writeFile_result env = None
         \<and> exec_result env = None \<and> \<not> isl (readFile_result env)
      then (if deleteFile_result env (inputFileName vf) = None
            then [inputFileName vf, outputFileName vf] else [inputFileName vf])
      else [])"
    by (simp add: handleTrim_events handleTrim_try_events_cases trim_with_data_events
        engine_not_ready_iff deleted_files_append
        split: option.splits sum.splits)
  have v1: "deleted_files (events (handleTrim_v1 env vf st)) =
     deleted_files (events st) @
     (if ffmpegRef st \<and> ffmpegLoaded st \<and> \<not> isl (fetchFile_result env) \<and> writeFile_result env = None
         \<and> exec_result env = None \<and> \<not> isl (readFile_result env)
      then (if deleteFile_result env (inputFileName vf) = None
            then [inputFileName vf, outputFileName vf] else [inputFileName vf])
      else [])"
    by (simp add: handleTrim_v1_events handleTrim_v1_try_events_cases trim_with_data_events
        engine_not_ready_iff deleted_files_append
        split: option.splits sum.splits)
  from v2 v1 show ?thesis by (rule conjI)
qed

text \<open>
  C1. The two \<open>deleteFile\<close> calls that clean up after a run stand at the end of the
  \<open>try\<close> block, so the cleanup is neither attempted on the failure path nor shielded
  from its own failure. When \<open>exec\<close> throws, the run ends with the failure notification
  and neither file is deleted. When the deletion of the staged input throws, the output
  is not deleted and the failure is shown to the user as "Failed to trim video", after
  the success notification, with the progress back at 0.
\<close>

theorem handleTrim_cleanup_skipped_on_failure:
  "events (handleTrim exec_fails clip_mp4 engine_loaded) =
     [WriteFile ''input.mp4'' [1, 2, 3],
      Exec [''-ss'', ''0'', ''-to'', ''10'', ''-i'', ''input.mp4'', ''-c'', ''copy'',
            ''-avoid_negative_ts'', ''make_zero'', ''output.mp4''],
      Toast ''Failed to trim video'' ''Aborted()'' True]
   \<and> events (handleTrim cleanup_fails clip_mp4 engine_loaded) =
     [WriteFile ''input.mp4'' [1, 2, 3],
      Exec [''-ss'', ''0'', ''-to'', ''10'', ''-i'', ''input.mp4'', ''-c'', ''copy'',
            ''-avoid_negative_ts'', ''make_zero'', ''output.mp4''],
      ReadFile ''output.mp4'',
      CreateObjectURL \<lparr>blob_parts = [2], blob_type = ''video/mp4''\<rparr>,
      Toast ''Video trimmed successfully'' ''Your video is ready to download'' False,
      DeleteFile ''input.mp4'',
      Toast ''Failed to trim video'' ''ErrnoError: FS error'' True]
   \<and> processingProgress (handleTrim cleanup_fails clip_mp4 engine_loaded) = 0"
  by code_simp

text \<open>
  In every run the blob, if one is made, holds the bytes read back from the engine and
  has the type \<open>video/\<close> followed by the extension of the file name.
\<close>

lemma handleTrim_created_blobs:
  "created_blobs (events (handleTrim env vf st)) =
     created_blobs (events st) @
     (if ffmpegRef st \<and> ffmpegLoaded st \<and> data vf \<noteq> None \<and> writeFile_result env = None
         \<and> exec_result env = None
      then (case readFile_result env of
              Inl err \<Rightarrow> []
            | Inr out \<Rightarrow> [\<lparr>blob_parts = out, blob_type = ''video/'' @ fileExtension vf\<rparr>])
      else [])"
  by (simp add: handleTrim_events handleTrim_try_events_cases trim_with_data_events
      engine_not_ready_iff created_blobs_append
      split: option.splits sum.splits)

text \<open>
  C5. For a QuickTime file \<open>clip.mov\<close>, accepted by the upload component under the type
  \<open>video/quicktime\<close>, the blob of a successful trim has the type \<open>video/mov\<close> in both
  variants: the type is built from the file name's extension, not taken from the input's
  type. The two agree for \<open>clip.mp4\<close>.
\<close>

theorem handleTrim_blob_type_from_extension:
  "created_blobs (events (handleTrim smooth_run clip_mov engine_loaded)) =
     [\<lparr>blob_parts = [2], blob_type = ''video/mov''\<rparr>]
   \<and> created_blobs (events (handleTrim_v1 smooth_run clip_mov engine_loaded)) =
     [\<lparr>blob_parts = [2], blob_type = ''video/mov''\<rparr>]
   \<and> mime_type clip_mov = ''video/quicktime''
   \<and> trimmedVideoUrl (handleTrim smooth_run clip_mov engine_loaded) = Some ''blob:1''
   \<and> created_blobs (events (handleTrim smooth_run clip_mp4 engine_loaded)) =
     [\<lparr>blob_parts = [2], blob_type = ''video/mp4''\<rparr>]
   \<and> mime_type clip_mp4 = ''video/mp4''"
  by code_simp

text \<open>
  C7. While the engine object is missing or not loaded, a trim request of either variant
  only adds the non-destructive notification "Please wait": the processing flag, the
  progress, the artifact and every other part of the state stay as they were, and the
  engine is not called.
\<close>

theorem handleTrim_engine_not_ready:
  assumes "\<not> ffmpegRef st \<or> \<not> ffmpegLoaded st"
  shows "handleTrim env vf st =
           st\<lparr>events := events st @ [Toast ''Please wait'' ''Video editor is still loading'' False]\<rparr>
       \<and> handleTrim_v1 env vf st =
           st\<lparr>events := events st @ [Toast ''Please wait'' ''Video editor is still loading'' False]\<rparr>
       \<and> isProcessing (handleTrim env vf st) = isProcessing st
       \<and> processingProgress (handleTrim env vf st) = processingProgress st
       \<and> trimmedVideoUrl (handleTrim env vf st) = trimmedVideoUrl st"
proof -
  from assms have "engine_not_ready st" by (auto simp add: engine_not_ready_def)
  then show ?thesis by (simp add: handleTrim_def handleTrim_v1_def toast_def emit_def)
qed

theorem handleTrim_engine_not_ready_witness:
  "\<not> ffmpegLoaded engine_loading
   \<and> handleTrim smooth_run clip_mp4 engine_loading =
       engine_loading\<lparr>events := [Toast ''Please wait'' ''Video editor is still loading'' False]\<rparr>
   \<and> isProcessing (handleTrim smooth_run clip_mp4 engine_loading) = False
   \<and> processingProgress (handleTrim smooth_run clip_mp4 engine_loading) = 0
   \<and> trimmedVideoUrl (handleTrim smooth_run clip_mp4 engine_loading) = None"
proof -
  have a: "\<not> ffmpegLoaded engine_loading" "events engine_loading = []"
    "isProcessing engine_loading = False" "processingProgress engine_loading = 0"
    "trimmedVideoUrl engine_loading = None"
    by (simp_all add: engine_loading_def ten_seconds_def handleLoadedMetadata_def
        initial_timeline_def)
  from a(1) have "\<not> ffmpegRef engine_loading \<or> \<not> ffmpegLoaded engine_loading" by simp
  from handleTrim_engine_not_ready [OF this, of smooth_run clip_mp4] a show ?thesis by simp
qed

text \<open>The value a run throws is that of the first call that throws.\<close>

lemma trim_with_data_thrown:
  "snd (trim_with_data env vf videoData st) =
     (case writeFile_result env of
        Some err \<Rightarrow> Some err
      | None \<Rightarrow>
          (case exec_result env of
             Some err \<Rightarrow> Some err
           | None \<Rightarrow>
               (case readFile_result env of
                  Inl err \<Rightarrow> Some err
                | Inr out \<Rightarrow>
                    (case deleteFile_result env (inputFileName vf) of
                       Some err \<Rightarrow> Some err
                     | None \<Rightarrow> deleteFile_result env (outputFileName vf)))))"
  by (simp add: trim_with_data_def Let_def split: option.splits sum.splits)

text \<open>
  C8, as amended. When the \<open>try\<close> block of a run throws, the last effect of the run is the
  destructive notification "Failed to trim video" whose description is the message of the
  thrown value if that is an \<open>Error\<close> instance, and otherwise the fixed text of the variant
  ("Unknown error occurred", "Please try again" in the first variant); the progress is 0
  and the processing flag is cleared.
\<close>

theorem handleTrim_failure_outcome:
  "(ffmpegRef st \<and> ffmpegLoaded st
     \<and> snd (handleTrim_try env vf
          (st\<lparr>isProcessing := True, trimmedVideoUrl := None, processingProgress := 0\<rparr>)) = Some err
    \<longrightarrow> last (events (handleTrim env vf st)) =
          Toast ''Failed to trim video''
            (case err of Error_instance message \<Rightarrow> message
                       | Other_value v \<Rightarrow> ''Unknown error occurred'') True
        \<and> processingProgress (handleTrim env vf st) = 0
        \<and> \<not> isProcessing (handleTrim env vf st))
   \<and> (ffmpegRef st \<and> ffmpegLoaded st
     \<and> snd (handleTrim_v1_try env vf
          (st\<lparr>isProcessing := True, trimmedVideoUrl := None, processingProgress := 0\<rparr>)) = Some err
    \<longrightarrow> last (events (handleTrim_v1 env vf st)) =
          Toast ''Failed to trim video''
            (case err of Error_instance message \<Rightarrow> message
                       | Other_value v \<Rightarrow> ''Please try again'') True
        \<and> processingProgress (handleTrim_v1 env vf st) = 0
        \<and> \<not> isProcessing (handleTrim_v1 env vf st))"
proof -
  have descr: "error_description fallback err =
      (case err of Error_instance message \<Rightarrow> message | Other_value v \<Rightarrow> fallback)"
    for fallback
    by (cases err) simp_all
  have v2: "ffmpegRef st \<and> ffmpegLoaded st
     \<and> snd (handleTrim_try env vf
          (st\<lparr>isProcessing := True, trimmedVideoUrl := None, processingProgress := 0\<rparr>)) = Some err
    \<longrightarrow> last (events (handleTrim env vf st)) =
          Toast ''Failed to trim video''
            (case err of Error_instance message \<Rightarrow> message
                       | Other_value v \<Rightarrow> ''Unknown error occurred'') True
        \<and> processingProgress (handleTrim env vf st) = 0
        \<and> \<not> isProcessing (handleTrim env vf st)"
    by (auto simp add: handleTrim_def handleTrim_catch_def engine_not_ready_iff events_toast
        descr split: prod.splits)
  have v1: "ffmpegRef st \<and> ffmpegLoaded st
     \<and> snd (handleTrim_v1_try env vf
          (st\<lparr>isProcessing := True, trimmedVideoUrl := None, processingProgress := 0\<rparr>)) = Some err
    \<longrightarrow> last (events (handleTrim_v1 env vf st)) =
          Toast ''Failed to trim video''
            (case err of Error_instance message \<Rightarrow> message
                       | Other_value v \<Rightarrow> ''Please try again'') True
        \<and> processingProgress (handleTrim_v1 env vf st) = 0
        \<and> \<not> isProcessing (handleTrim_v1 env vf st)"
    by (auto simp add: handleTrim_v1_def handleTrim_catch_def engine_not_ready_iff events_toast
        descr split: prod.splits)
  from v2 v1 show ?thesis by (rule conjI)
qed

theorem handleTrim_failure_outcome_witness:
  "ffmpegRef engine_loaded \<and> ffmpegLoaded engine_loaded
   \<and> snd (handleTrim_try exec_fails clip_mp4
        (engine_loaded\<lparr>isProcessing := True, trimmedVideoUrl := None, processingProgress := 0\<rparr>))
       = Some (Error_instance ''Aborted()'')
   \<and> snd (handleTrim_v1_try exec_fails clip_mp4
        (engine_loaded\<lparr>isProcessing := True, trimmedVideoUrl := None, processingProgress := 0\<rparr>))
       = Some (Error_instance ''Aborted()'')
   \<and> last (events (handleTrim exec_fails clip_mp4 engine_loaded)) =
       Toast ''Failed to trim video'' ''Aborted()'' True
   \<and> processingProgress (handleTrim exec_fails clip_mp4 engine_loaded) = 0
   \<and> \<not> isProcessing (handleTrim exec_fails clip_mp4 engine_loaded)
   \<and> last (events (handleTrim_v1 exec_fails clip_mp4 engine_loaded)) =
       Toast ''Failed to trim video'' ''Aborted()'' True
   \<and> processingProgress (handleTrim_v1 exec_fails clip_mp4 engine_loaded) = 0
   \<and> \<not> isProcessing (handleTrim_v1 exec_fails clip_mp4 engine_loaded)"
proof -
  have r: "ffmpegRef engine_loaded" "ffmpegLoaded engine_loaded"
    by (simp_all add: engine_loaded_def)
  have t: "snd (handleTrim_try exec_fails clip_mp4
        (engine_loaded\<lparr>isProcessing := True, trimmedVideoUrl := None, processingProgress := 0\<rparr>))
       = Some (Error_instance ''Aborted()'')"
    "snd (handleTrim_v1_try exec_fails clip_mp4
        (engine_loaded\<lparr>isProcessing := True, trimmedVideoUrl := None, processingProgress := 0\<rparr>))
       = Some (Error_instance ''Aborted()'')"
    by (simp_all add: handleTrim_try_def handleTrim_v1_try_def trim_with_data_thrown
        exec_fails_def smooth_run_def clip_mp4_def)
  from handleTrim_failure_outcome [of engine_loaded exec_fails clip_mp4 "Error_instance ''Aborted()''"] r t
  show ?thesis by simp
qed

text \<open>
  C8, as stated, fails when the thrown value is not an \<open>Error\<close> instance: the reason
  \<open>ErrnoError: FS error\<close>, a string rejected by \<open>readFile\<close>, is replaced by a fixed text.
\<close>

theorem handleTrim_reason_not_verbatim_counterexample:
  "snd (handleTrim_try read_fails clip_mp4
        (engine_loaded\<lparr>isProcessing := True, trimmedVideoUrl := None, processingProgress := 0\<rparr>))
     = Some (Other_value ''ErrnoError: FS error'')
   \<and> last (events (handleTrim read_fails clip_mp4 engine_loaded)) =
       Toast ''Failed to trim video'' ''Unknown error occurred'' True
   \<and> last (events (handleTrim_v1 read_fails clip_mp4 engine_loaded)) =
       Toast ''Failed to trim video'' ''Please try again'' True"
  by code_simp

subsection \<open>The download action\<close>

text \<open>
  C9. Without an artifact the download action changes nothing and triggers nothing. With an
  artifact (an object URL, which is never the empty string) it clicks a link to that URL
  whose download name is \<open>trimmed-\<close> followed by the original file name, and announces it.
\<close>

theorem handleDownload_needs_artifact:
  "(trimmedVideoUrl st = None \<longrightarrow> handleDownload vf st = st)
   \<and> (trimmedVideoUrl st = Some href \<and> href \<noteq> [] \<longrightarrow>
        handleDownload vf st =
          st\<lparr>events := events st @
                [AnchorClick href (''trimmed-'' @ filename vf),
                 Toast ''Download started'' ''Your trimmed video is being downloaded'' False]\<rparr>)"
  by (simp add: handleDownload_def toast_def emit_def)

theorem handleDownload_needs_artifact_witness:
  "trimmedVideoUrl engine_loaded = None
   \<and> handleDownload clip_mp4 engine_loaded = engine_loaded
   \<and> trimmedVideoUrl (engine_loaded\<lparr>trimmedVideoUrl := Some ''blob:1''\<rparr>) = Some ''blob:1''
   \<and> ''blob:1'' \<noteq> []
   \<and> events (handleDownload clip_mp4 (engine_loaded\<lparr>trimmedVideoUrl := Some ''blob:1''\<rparr>)) =
       [AnchorClick ''blob:1'' ''trimmed-clip.mp4'',
        Toast ''Download started'' ''Your trimmed video is being downloaded'' False]"
proof -
  have a: "trimmedVideoUrl engine_loaded = None" "events engine_loaded = []"
    by (simp_all add: engine_loaded_def ten_seconds_def handleLoadedMetadata_def
        initial_timeline_def)
  have b: "trimmedVideoUrl (engine_loaded\<lparr>trimmedVideoUrl := Some ''blob:1''\<rparr>) = Some ''blob:1''"
    "''blob:1'' \<noteq> []" "filename clip_mp4 = ''clip.mp4''"
    by (simp_all add: clip_mp4_def)
  from handleDownload_needs_artifact [of engine_loaded clip_mp4 "''blob:1''"] a
  have 1: "handleDownload clip_mp4 engine_loaded = engine_loaded" by simp
  from handleDownload_needs_artifact
         [of "engine_loaded\<lparr>trimmedVideoUrl := Some ''blob:1''\<rparr>" clip_mp4 "''blob:1''"] a b
  have 2: "events (handleDownload clip_mp4 (engine_loaded\<lparr>trimmedVideoUrl := Some ''blob:1''\<rparr>)) =
       [AnchorClick ''blob:1'' ''trimmed-clip.mp4'',
        Toast ''Download started'' ''Your trimmed video is being downloaded'' False]"
    by simp
  from a(1) 1 b(1) b(2) 2 show ?thesis by (intro conjI)
qed

end
